theory Spec2Isabelle
  imports Complex_Main
begin

section \<open>Python exceptions as values\<close>

text \<open>
  The pages are Python scripts. An exception raised by a scalar operation or by the
  chemistry toolkit is a value \<open>Inl e\<close> of a sum type; a normal return is \<open>Inr v\<close>.
  Floating-point numbers are modelled by the reals.
\<close>

datatype py_error =
    ZeroDivisionError
  | RangeError
  | InvariantViolation
  | ValueError
  | ToolkitException string

fun str_of_error :: "py_error \<Rightarrow> string" where
  "str_of_error ZeroDivisionError = ''float division by zero''"
| "str_of_error RangeError = ''Range Error''"
| "str_of_error InvariantViolation = ''Invariant Violation''"
| "str_of_error ValueError = ''The values in t must be monotonically increasing or monotonically decreasing; repeated values are allowed.''"
| "str_of_error (ToolkitException msg) = msg"

text \<open>
  Division of two Python scalars (the slider values are Python \<open>int\<close>s and \<open>float\<close>s):
  a zero divisor raises.
\<close>

definition py_div :: "real \<Rightarrow> real \<Rightarrow> py_error + real" where
  "py_div a b = (if b = 0 then Inl ZeroDivisionError else Inr (a / b))"

section \<open>Pharmacokinetic models (4\_Pharmacokinetic\_Modeling.py)\<close>






text \<open>
  \<^verbatim>\<open>return (F*D*ka)/(V*(ka-ke)) * (np.exp(-ke*t) - np.exp(-ka*t))\<close>: the quotient of the
  two scalar products is taken before the array factor is multiplied in.
\<close>

definition one_compartment_oral ::
  "real list \<Rightarrow> real \<Rightarrow> real \<Rightarrow> real \<Rightarrow> real \<Rightarrow> real \<Rightarrow> py_error + real list" where
  "one_compartment_oral t D V ka ke F =
     (case py_div (F * D * ka) (V * (ka - ke)) of
        Inl e \<Rightarrow> Inl e
      | Inr c \<Rightarrow> Inr (map (\<lambda>ti. c * (exp (- ke * ti) - exp (- ka * ti))) t))"







section \<open>Ionization, buffer capacity and release profiles\<close>

text \<open>
  \<open>calculate_ionization\<close> of 2\_ PH\_Effects\_on\_Drug\_Ionization.py. Python's
  \<^verbatim>\<open>10**x\<close> on a float exponent is the real power \<open>10 powr x\<close>; the denominators are
  at least 1.
\<close>

definition calculate_ionization :: "real \<Rightarrow> real \<Rightarrow> bool \<Rightarrow> real" where
  "calculate_ionization pH pKa is_acid =
     (if is_acid then 1 / (1 + 10 powr (pKa - pH)) else 1 / (1 + 10 powr (pH - pKa)))"


text \<open>
  \<open>zero_order_release\<close> of 6\_Drug\_Diffusion\_and\_Release\_Mechanisms.py:
  \<^verbatim>\<open>np.minimum(k*t, M0)\<close>, elementwise over the time array.
\<close>

definition zero_order_release :: "real list \<Rightarrow> real \<Rightarrow> real \<Rightarrow> real list" where
  "zero_order_release t k M0 = map (\<lambda>ti. min (k * ti) M0) t"

section \<open>Lipinski compliance (10\_Lipinski\_game.py)\<close>

record lipinski_params =
  Molecular_Weight :: real
  LogP :: real
  H_Bond_Donors :: int
  H_Bond_Acceptors :: int

record lipinski_rules =
  rule_Molecular_Weight :: bool
  rule_LogP :: bool
  rule_H_Bond_Donors :: bool
  rule_H_Bond_Acceptors :: bool

text \<open>The method returns the bare \<open>False\<close> for missing parameters, a pair otherwise.\<close>

datatype compliance_result = Bare_False | Checked lipinski_rules bool

text \<open>\<^verbatim>\<open>sum(rules.values())\<close>: the number of rules that hold.\<close>

definition sum_rules :: "lipinski_rules \<Rightarrow> nat" where
  "sum_rules r =
     (if rule_Molecular_Weight r then 1 else 0) + (if rule_LogP r then 1 else 0)
   + (if rule_H_Bond_Donors r then 1 else 0) + (if rule_H_Bond_Acceptors r then 1 else 0)"

definition check_lipinski_compliance :: "lipinski_params option \<Rightarrow> compliance_result" where
  "check_lipinski_compliance params =
     (case params of
        None \<Rightarrow> Bare_False
      | Some p \<Rightarrow>
          (let rules = \<lparr> rule_Molecular_Weight = (Molecular_Weight p \<le> 500),
                         rule_LogP = (LogP p \<le> 5),
                         rule_H_Bond_Donors = (H_Bond_Donors p \<le> 5),
                         rule_H_Bond_Acceptors = (H_Bond_Acceptors p \<le> 10) \<rparr>
           in Checked rules (sum_rules rules \<ge> 3)))"

text \<open>The number of rules a parameter record fails.\<close>

definition failed_rules :: "lipinski_params \<Rightarrow> nat" where
  "failed_rules p =
     (if Molecular_Weight p \<le> 500 then 0 else 1) + (if LogP p \<le> 5 then 0 else 1)
   + (if H_Bond_Donors p \<le> 5 then 0 else 1) + (if H_Bond_Acceptors p \<le> 10 then 0 else 1)"

fun reported_compliant :: "compliance_result \<Rightarrow> bool" where
  "reported_compliant Bare_False = False"
| "reported_compliant (Checked rules compliance) = compliance"

fun weight_rule :: "compliance_result \<Rightarrow> bool" where
  "weight_rule Bare_False = False"
| "weight_rule (Checked rules compliance) = rule_Molecular_Weight rules"


section \<open>Molecular graphs and the toolkit's editing operations\<close>

text \<open>
  The game edits molecules through the RDKit toolkit. A molecule is its list of atoms
  (each an atomic number; \<open>0\<close> is the dummy atom \<open>*\<close>, \<open>1\<close> hydrogen) and its list of
  bonds between atom indices. The editing operations the game calls are modelled here
  as the toolkit documents them; parsing, hydrogen addition, sanitization and SMILES
  output stay parameters (record \<open>toolkit\<close> below).
\<close>

datatype bond_type = SINGLE | DOUBLE | TRIPLE | AROMATIC

record mol =
  atoms :: "nat list"
  bonds :: "(nat \<times> nat \<times> bond_type) list"

text \<open>\<open>mol.GetNumAtoms()\<close>.\<close>

definition GetNumAtoms :: "mol \<Rightarrow> nat" where
  "GetNumAtoms m = length (atoms m)"

text \<open>\<open>atom.GetNeighbors()\<close> of the atom with index \<open>i\<close>, in the order of its bonds.\<close>

definition GetNeighbors :: "mol \<Rightarrow> nat \<Rightarrow> nat list" where
  "GetNeighbors m i =
     concat (map (\<lambda>(a, b, ty). if a = i then [b] else if b = i then [a] else []) (bonds m))"

text \<open>
  \<open>RemoveAtom(idx)\<close>: the atom goes together with every bond it takes part in, and the
  atoms behind it move down by one index. An index that names no atom raises.
\<close>

definition renumber :: "nat \<Rightarrow> nat \<Rightarrow> nat" where
  "renumber idx j = (if idx < j then j - 1 else j)"

definition RemoveAtom :: "nat \<Rightarrow> mol \<Rightarrow> py_error + mol" where
  "RemoveAtom idx m =
     (if idx < length (atoms m)
      then Inr \<lparr> atoms = take idx (atoms m) @ drop (Suc idx) (atoms m),
                 bonds = map (\<lambda>(a, b, ty). (renumber idx a, renumber idx b, ty))
                           (filter (\<lambda>(a, b, ty). a \<noteq> idx \<and> b \<noteq> idx) (bonds m)) \<rparr>
      else Inl RangeError)"

text \<open>\<open>Chem.CombineMols(a, b)\<close>: the atoms of \<open>b\<close> follow those of \<open>a\<close>; no bond is added.\<close>

definition CombineMols :: "mol \<Rightarrow> mol \<Rightarrow> mol" where
  "CombineMols a b =
     \<lparr> atoms = atoms a @ atoms b,
       bonds = bonds a
         @ map (\<lambda>(i, j, ty). (length (atoms a) + i, length (atoms a) + j, ty)) (bonds b) \<rparr>"

text \<open>
  \<open>AddBond(i, j, order)\<close>: both indices must name atoms, they must differ, and the two
  atoms must not be bonded yet.
\<close>

definition AddBond :: "nat \<Rightarrow> nat \<Rightarrow> bond_type \<Rightarrow> mol \<Rightarrow> py_error + mol" where
  "AddBond i j ty m =
     (if \<not> (i < length (atoms m) \<and> j < length (atoms m)) then Inl RangeError
      else if i = j \<or> j \<in> set (GetNeighbors m i) then Inl InvariantViolation
      else Inr (m\<lparr>bonds := bonds m @ [(i, j, ty)]\<rparr>))"

text \<open>
  The toolkit functions that are not graph editing: \<open>MolFromSmiles\<close> returns \<open>None\<close> for
  text it cannot parse, \<open>SanitizeMol\<close> and \<open>MolToSmiles\<close> may raise.
\<close>

record toolkit =
  MolFromSmiles :: "string \<Rightarrow> mol option"
  AddHs :: "mol \<Rightarrow> mol"
  SanitizeMol :: "mol \<Rightarrow> py_error + mol"
  MolToSmiles :: "mol \<Rightarrow> py_error + string"

section \<open>Functional-group attachment (10\_Lipinski\_game.py)\<close>

text \<open>
  The first loop of \<open>attach_functional_group\<close>: the first hydrogen that has a neighbour,
  with that neighbour (\<open>neighbors[0]\<close>); a hydrogen without neighbours is passed over.
  The result is \<open>(heavy_idx, hydrogen_idx)\<close>.
\<close>

fun find_hydrogen :: "mol \<Rightarrow> nat list \<Rightarrow> (nat \<times> nat) option" where
  "find_hydrogen m [] = None"
| "find_hydrogen m (i # rest) =
     (if atoms m ! i = 1
      then (case GetNeighbors m i of
              [] \<Rightarrow> find_hydrogen m rest
            | heavy # others \<Rightarrow> Some (heavy, i))
      else find_hydrogen m rest)"

text \<open>The second loop: the index of the first dummy atom of the fragment, counted from \<open>i\<close>.\<close>

fun find_dummy :: "nat list \<Rightarrow> nat \<Rightarrow> nat option" where
  "find_dummy [] i = None"
| "find_dummy (z # zs) i = (if z = 0 then Some i else find_dummy zs (Suc i))"

text \<open>
  The result is \<open>Inr None\<close> for the function's \<open>return None\<close>, \<open>Inr (Some m)\<close> for a
  returned molecule and \<open>Inl e\<close> for an exception that leaves the function. The handler
  around the removal of the dummy atom reports on the page and goes on with the molecule
  as it is.
\<close>

definition attach_functional_group :: "toolkit \<Rightarrow> mol \<Rightarrow> string \<Rightarrow> py_error + mol option" where
  "attach_functional_group tk m fg_smiles =
     (case MolFromSmiles tk fg_smiles of
        None \<Rightarrow> Inr None
      | Some fg \<Rightarrow>
          (let mol_h = AddHs tk m
           in case find_hydrogen mol_h [0 ..< length (atoms mol_h)] of
                None \<Rightarrow> Inr None
              | Some (heavy_idx0, hydrogen_idx) \<Rightarrow>
                  (case RemoveAtom hydrogen_idx mol_h of
                     Inl e \<Rightarrow> Inl e
                   | Inr mol_no_H \<Rightarrow>
                       (let heavy_idx = (if hydrogen_idx < heavy_idx0
                                         then heavy_idx0 - 1 else heavy_idx0);
                            combo = CombineMols mol_no_H fg;
                            n_atoms_main = GetNumAtoms mol_no_H;
                            dummy_idx = (case find_dummy (atoms fg) 0 of
                                           None \<Rightarrow> 0
                                         | Some d \<Rightarrow> d);
                            new_dummy_idx = n_atoms_main + dummy_idx
                        in case AddBond heavy_idx new_dummy_idx SINGLE combo of
                             Inl e \<Rightarrow> Inl e
                           | Inr new_mol \<Rightarrow>
                               (let final_mol = (case RemoveAtom new_dummy_idx new_mol of
                                                   Inl e \<Rightarrow> new_mol
                                                 | Inr rw_mol \<Rightarrow> rw_mol)
                                in case SanitizeMol tk final_mol of
                                     Inl e \<Rightarrow> Inl e
                                   | Inr sanitized \<Rightarrow> Inr (Some sanitized))))))"

section \<open>The molecule editor of the game\<close>

datatype functional_group = Methyl | Hydroxyl | Amine | Carboxyl | Benzene_Ring

fun functional_groups :: "functional_group \<Rightarrow> string" where
  "functional_groups Methyl = ''[*:1]C''"
| "functional_groups Hydroxyl = ''[*:1]O''"
| "functional_groups Amine = ''[*:1]N''"
| "functional_groups Carboxyl = ''[*:1]C(=O)O''"
| "functional_groups Benzene_Ring = ''[*:1]c1ccccc1''"

text \<open>
  The session variables the editor reads and writes. \<open>submitted\<close> is created on first
  assignment, so it may be absent.
\<close>

record session_state =
  score :: int
  current_molecule :: string
  game_mode :: string
  message :: string
  submitted :: "bool option"

text \<open>The body of \<^verbatim>\<open>if st.button("Add Group"):\<close>, with its \<open>try\<close>/\<open>except\<close>.\<close>

definition add_group :: "toolkit \<Rightarrow> functional_group \<Rightarrow> session_state \<Rightarrow> session_state" where
  "add_group tk selected_group s =
     (case MolFromSmiles tk (current_molecule s) of
        None \<Rightarrow> s\<lparr>message := ''Current molecule is invalid!''\<rparr>
      | Some m \<Rightarrow>
          (case attach_functional_group tk m (functional_groups selected_group) of
             Inl e \<Rightarrow> s\<lparr>message := ''Error: '' @ str_of_error e\<rparr>
           | Inr None \<Rightarrow> s\<lparr>message := ''Invalid modification!''\<rparr>
           | Inr (Some new_mol) \<Rightarrow>
               (case MolToSmiles tk new_mol of
                  Inl e \<Rightarrow> s\<lparr>message := ''Error: '' @ str_of_error e\<rparr>
                | Inr smiles \<Rightarrow>
                    s\<lparr>current_molecule := smiles,
                      message := ''Group added successfully!'',
                      submitted := Some False\<rparr>)))"

text \<open>
  The text field. It shows the current molecule unless the user has entered something
  else: \<open>typed = None\<close> is the untouched field, whose value is the current molecule.
\<close>

definition enter_smiles :: "toolkit \<Rightarrow> string option \<Rightarrow> session_state \<Rightarrow> session_state" where
  "enter_smiles tk typed s =
     (let smiles_input = (case typed of None \<Rightarrow> current_molecule s | Some v \<Rightarrow> v)
      in if smiles_input \<noteq> current_molecule s
         then (case MolFromSmiles tk smiles_input of
                 Some m \<Rightarrow> s\<lparr>current_molecule := smiles_input,
                              message := ''SMILES updated successfully!'',
                              submitted := Some False\<rparr>
               | None \<Rightarrow> s\<lparr>message := ''Invalid SMILES!''\<rparr>)
         else s)"

text \<open>
  The end of the editor: a non-empty message is shown with \<open>st.info\<close> and cleared. The
  second component is the text shown, if any.
\<close>

definition show_message :: "session_state \<Rightarrow> session_state \<times> string option" where
  "show_message s =
     (if message s \<noteq> [] then (s\<lparr>message := []\<rparr>, Some (message s)) else (s, None))"

text \<open>
  One pass through the editor. \<open>typed\<close> is what the user has entered in the text field
  that the previous pass displayed with the molecule of that pass as its default. The
  field has no key, so it is the same field only while its default is the same: once
  Add Group has changed the current molecule, the field is created anew and returns its
  new default, and what was typed is dropped.
\<close>

definition functional_group_editor ::
  "toolkit \<Rightarrow> bool \<Rightarrow> functional_group \<Rightarrow> string option \<Rightarrow> session_state
     \<Rightarrow> session_state \<times> string option" where
  "functional_group_editor tk clicked selected_group typed s =
     (let s1 = (if clicked then add_group tk selected_group s else s);
          field = (if current_molecule s1 = current_molecule s then typed else None)
      in show_message (enter_smiles tk field s1))"

text \<open>
  An attempt to add a group fails when the current molecule does not parse, when the
  attachment returns \<open>None\<close>, or when the attachment or the SMILES output raises.
\<close>

definition add_group_fails :: "toolkit \<Rightarrow> functional_group \<Rightarrow> session_state \<Rightarrow> bool" where
  "add_group_fails tk selected_group s =
     (case MolFromSmiles tk (current_molecule s) of
        None \<Rightarrow> True
      | Some m \<Rightarrow>
          (case attach_functional_group tk m (functional_groups selected_group) of
             Inl e \<Rightarrow> True
           | Inr None \<Rightarrow> True
           | Inr (Some new_mol) \<Rightarrow>
               (case MolToSmiles tk new_mol of Inl e \<Rightarrow> True | Inr smiles \<Rightarrow> False)))"

section \<open>Definitions used to state the properties\<close>

text \<open>A molecule of the toolkit is well formed: every bond joins two different atoms of the molecule.\<close>

definition wf_mol :: "mol \<Rightarrow> bool" where
  "wf_mol m =
     list_all (\<lambda>(a, b, ty). a < length (atoms m) \<and> b < length (atoms m) \<and> a \<noteq> b) (bonds m)"

text \<open>Every bond of the molecule has both ends among the first \<open>n\<close> atoms.\<close>

definition bond_ends_below :: "nat \<Rightarrow> mol \<Rightarrow> bool" where
  "bond_ends_below n m = list_all (\<lambda>(a, b, ty). a < n \<and> b < n) (bonds m)"

text \<open>The start molecule of the game, \<open>CC\<close>, as a graph without hydrogens.\<close>

definition ethane :: mol where
  "ethane = \<lparr>atoms = [6, 6], bonds = [(0, 1, SINGLE)]\<rparr>"

text \<open>Ethane with its six hydrogens explicit, numbered after the heavy atoms.\<close>

definition ethane_with_hydrogens :: mol where
  "ethane_with_hydrogens =
     \<lparr>atoms = [6, 6, 1, 1, 1, 1, 1, 1],
       bonds = [(0, 1, SINGLE), (0, 2, SINGLE), (0, 3, SINGLE), (0, 4, SINGLE),
                (1, 5, SINGLE), (1, 6, SINGLE), (1, 7, SINGLE)]\<rparr>"

text \<open>The methyl fragment \<open>[*:1]C\<close>: the dummy atom bonded to a carbon.\<close>

definition methyl_fragment :: mol where
  "methyl_fragment = \<lparr>atoms = [0, 6], bonds = [(0, 1, SINGLE)]\<rparr>"

text \<open>The last two statements of \<open>attach_functional_group\<close> applied to the edited molecule.\<close>

definition after_sanitize :: "toolkit \<Rightarrow> mol \<Rightarrow> py_error + mol option" where
  "after_sanitize tk final_mol =
     (case SanitizeMol tk final_mol of Inl e \<Rightarrow> Inl e | Inr sanitized \<Rightarrow> Inr (Some sanitized))"

text \<open>The fragment index \<open>dummy_idx\<close> that the attachment settles on.\<close>

definition attachment_index :: "mol \<Rightarrow> nat" where
  "attachment_index fg = (case find_dummy (atoms fg) 0 of None \<Rightarrow> 0 | Some d \<Rightarrow> d)"

text \<open>A fragment without a dummy atom: a single carbon, \<open>C\<close>.\<close>

definition plain_carbon :: mol where
  "plain_carbon = \<lparr>atoms = [6], bonds = []\<rparr>"

text \<open>A molecule without any hydrogen: carbon tetrachloride.\<close>

definition carbon_tetrachloride :: mol where
  "carbon_tetrachloride =
     \<lparr>atoms = [17, 6, 17, 17, 17],
       bonds = [(0, 1, SINGLE), (1, 2, SINGLE), (1, 3, SINGLE), (1, 4, SINGLE)]\<rparr>"

text \<open>A toolkit that knows the molecules above, accepts every molecule as sanitized and has no SMILES writer.\<close>

definition example_toolkit :: toolkit where
  "example_toolkit =
     \<lparr> MolFromSmiles = (\<lambda>s. if s = ''CC'' then Some ethane
                            else if s = ''[*:1]C'' then Some methyl_fragment
                            else if s = ''C'' then Some plain_carbon
                            else if s = ''ClC(Cl)(Cl)Cl'' then Some carbon_tetrachloride
                            else None),
       AddHs = (\<lambda>m. if m = ethane then ethane_with_hydrogens else m),
       SanitizeMol = Inr,
       MolToSmiles = (\<lambda>m. Inl (ToolkitException ''no SMILES writer'')) \<rparr>"

text \<open>A session whose current molecule is carbon tetrachloride.\<close>

definition example_session :: session_state where
  "example_session =
     \<lparr> score = 0, current_molecule = ''ClC(Cl)(Cl)Cl'', game_mode = ''tutorial'',
       message = [], submitted = None \<rparr>"

text \<open>The text field holds new text that does not parse.\<close>

definition smiles_entry_fails :: "toolkit \<Rightarrow> string option \<Rightarrow> session_state \<Rightarrow> bool" where
  "smiles_entry_fails tk typed s =
     (case typed of
        None \<Rightarrow> False
      | Some v \<Rightarrow> v \<noteq> current_molecule s \<and> MolFromSmiles tk v = None)"

text \<open>The text field holds new text that parses.\<close>

definition smiles_entry_succeeds :: "toolkit \<Rightarrow> string option \<Rightarrow> session_state \<Rightarrow> bool" where
  "smiles_entry_succeeds tk typed s =
     (case typed of
        None \<Rightarrow> False
      | Some v \<Rightarrow> v \<noteq> current_molecule s \<and> MolFromSmiles tk v \<noteq> None)"

text \<open>The text field holds nothing new.\<close>

definition smiles_entry_idle :: "string option \<Rightarrow> session_state \<Rightarrow> bool" where
  "smiles_entry_idle typed s =
     (case typed of None \<Rightarrow> True | Some v \<Rightarrow> v = current_molecule s)"

section \<open>Auxiliary lemmas\<close>













lemma find_hydrogen_Some:
  "find_hydrogen m idxs = Some (heavy, h) \<Longrightarrow>
     h \<in> set idxs \<and> atoms m ! h = 1 \<and> heavy \<in> set (GetNeighbors m h)"
  by (induction idxs) (auto split: if_splits list.splits)

lemma find_hydrogen_None:
  "(find_hydrogen m idxs = None) = (\<forall>i \<in> set idxs. atoms m ! i = 1 \<longrightarrow> GetNeighbors m i = [])"
  by (induction idxs) (auto split: if_splits list.splits)

lemma neighbour_is_bonded:
  "j \<in> set (GetNeighbors m i) \<Longrightarrow> \<exists>ty. (i, j, ty) \<in> set (bonds m) \<or> (j, i, ty) \<in> set (bonds m)"
  by (auto simp add: GetNeighbors_def split: if_splits)

lemma wf_neighbour:
  assumes "wf_mol m" "j \<in> set (GetNeighbors m i)"
  shows "j < length (atoms m) \<and> j \<noteq> i"
  using neighbour_is_bonded[OF assms(2)] assms(1)
  by (auto simp add: wf_mol_def list_all_iff)

lemma find_dummy_None: "(find_dummy zs i = None) = (0 \<notin> set zs)"
  by (induction zs arbitrary: i) auto

lemma find_dummy_Some:
  "find_dummy zs i = Some d \<Longrightarrow> i \<le> d \<and> d < i + length zs \<and> zs ! (d - i) = 0"
proof (induction zs arbitrary: i)
  case Nil
  then show ?case by simp
next
  case (Cons z zs)
  show ?case
  proof (cases "z = 0")
    case True
    then show ?thesis using Cons.prems by simp
  next
    case False
    then have "find_dummy zs (Suc i) = Some d" using Cons.prems by simp
    from Cons.IH[OF this] have ih: "Suc i \<le> d" "d < Suc i + length zs" "zs ! (d - Suc i) = 0"
      by simp_all
    have "d - i = Suc (d - Suc i)" using ih(1) by arith
    then show ?thesis using ih by simp
  qed
qed

lemma RemoveAtom_ok:
  "idx < length (atoms m) \<Longrightarrow>
   RemoveAtom idx m =
     Inr \<lparr> atoms = take idx (atoms m) @ drop (Suc idx) (atoms m),
           bonds = map (\<lambda>(a, b, ty). (renumber idx a, renumber idx b, ty))
                     (filter (\<lambda>(a, b, ty). a \<noteq> idx \<and> b \<noteq> idx) (bonds m)) \<rparr>"
  by (simp add: RemoveAtom_def)

lemma removed_bond_ends:
  assumes wf: "wf_mol m" and idx: "idx < length (atoms m)"
    and r: "RemoveAtom idx m = Inr m'"
    and b: "(a, b, ty) \<in> set (bonds m')"
  shows "a < length (atoms m') \<and> b < length (atoms m')"
proof -
  have m': "m' = \<lparr> atoms = take idx (atoms m) @ drop (Suc idx) (atoms m),
           bonds = map (\<lambda>(a, b, ty). (renumber idx a, renumber idx b, ty))
                     (filter (\<lambda>(a, b, ty). a \<noteq> idx \<and> b \<noteq> idx) (bonds m)) \<rparr>"
    using r RemoveAtom_ok[OF idx] by simp
  have len: "length (atoms m') = length (atoms m) - 1"
    using idx by (simp add: m')
  from b obtain a0 b0 where ab: "(a0, b0, ty) \<in> set (bonds m)" "a0 \<noteq> idx" "b0 \<noteq> idx"
    "a = renumber idx a0" "b = renumber idx b0"
    by (auto simp add: m')
  have "a0 < length (atoms m)" "b0 < length (atoms m)"
    using wf ab(1) by (auto simp add: wf_mol_def list_all_iff)
  then show ?thesis
    using ab(2-5) idx by (auto simp add: len renumber_def)
qed

lemma neighbours_of_base_atom_in_combo:
  assumes ends: "\<forall>(a, b, ty) \<in> set (bonds base). a < length (atoms base) \<and> b < length (atoms base)"
    and j: "j \<in> set (GetNeighbors (CombineMols base fg) i)" and i: "i < length (atoms base)"
  shows "j < length (atoms base)"
proof -
  from neighbour_is_bonded[OF j] obtain ty where
    "(i, j, ty) \<in> set (bonds (CombineMols base fg)) \<or> (j, i, ty) \<in> set (bonds (CombineMols base fg))"
    by blast
  then show ?thesis
    using ends i by (auto simp add: CombineMols_def)
qed

lemma AddBond_across:
  assumes ends: "bond_ends_below (length (atoms base)) base"
    and heavy: "heavy < length (atoms base)" and d: "d < length (atoms fg)"
  shows "AddBond heavy (length (atoms base) + d) ty (CombineMols base fg)
         = Inr ((CombineMols base fg)
                  \<lparr>bonds := bonds (CombineMols base fg) @ [(heavy, length (atoms base) + d, ty)]\<rparr>)"
proof -
  have "length (atoms base) + d \<notin> set (GetNeighbors (CombineMols base fg) heavy)"
  proof
    assume "length (atoms base) + d \<in> set (GetNeighbors (CombineMols base fg) heavy)"
    moreover have "\<forall>(a, b, ty) \<in> set (bonds base).
                     a < length (atoms base) \<and> b < length (atoms base)"
      using ends by (simp add: bond_ends_below_def list_all_iff)
    ultimately have "length (atoms base) + d < length (atoms base)"
      using heavy neighbours_of_base_atom_in_combo[of base "length (atoms base) + d" fg heavy]
      by blast
    then show False by simp
  qed
  moreover have "length (atoms (CombineMols base fg)) = length (atoms base) + length (atoms fg)"
    by (simp add: CombineMols_def)
  ultimately show ?thesis
    using heavy d by (simp add: AddBond_def)
qed

lemma base_bonds_survive:
  assumes "bond_ends_below n base" "n \<le> idx"
  shows "map (\<lambda>(a, b, ty). (renumber idx a, renumber idx b, ty))
           (filter (\<lambda>(a, b, ty). a \<noteq> idx \<and> b \<noteq> idx) (bonds base)) = bonds base"
proof -
  have keep: "filter (\<lambda>(a, b, ty). a \<noteq> idx \<and> b \<noteq> idx) (bonds base) = bonds base"
    using assms by (intro filter_True) (auto simp add: bond_ends_below_def list_all_iff)
  have "map (\<lambda>(a, b, ty). (renumber idx a, renumber idx b, ty)) (bonds base) = bonds base"
    using assms by (intro map_idI) (auto simp add: bond_ends_below_def list_all_iff renumber_def)
  then show ?thesis by (simp only: keep)
qed

lemma renumber_shift: "renumber (n + d) (n + a) = n + renumber d a"
  by (simp add: renumber_def)

lemma fragment_bonds_shift:
  "map (\<lambda>(a, b, ty). (renumber (n + d) a, renumber (n + d) b, ty))
     (filter (\<lambda>(a, b, ty). a \<noteq> n + d \<and> b \<noteq> n + d)
        (map (\<lambda>(i, j, ty). (n + i, n + j, ty)) bs))
   = map (\<lambda>(i, j, ty). (n + i, n + j, ty))
       (map (\<lambda>(a, b, ty). (renumber d a, renumber d b, ty))
          (filter (\<lambda>(a, b, ty). a \<noteq> d \<and> b \<noteq> d) bs))"
proof (induction bs)
  case Nil
  show ?case by simp
next
  case (Cons x bs)
  obtain i j ty where x: "x = (i, j, ty)" by (cases x)
  show ?case using Cons.IH by (simp add: x renumber_shift)
qed

lemma bond_then_remove:
  assumes ends: "bond_ends_below (length (atoms base)) base"
    and d: "d < length (atoms fg)"
    and fg': "RemoveAtom d fg = Inr fg'"
  shows "RemoveAtom (length (atoms base) + d)
           ((CombineMols base fg)
              \<lparr>bonds := bonds (CombineMols base fg) @ [(heavy, length (atoms base) + d, ty)]\<rparr>)
         = Inr (CombineMols base fg')"
proof -
  let ?n = "length (atoms base)"
  let ?X = "(CombineMols base fg)
              \<lparr>bonds := bonds (CombineMols base fg) @ [(heavy, ?n + d, ty)]\<rparr>"
  have f: "fg' = \<lparr> atoms = take d (atoms fg) @ drop (Suc d) (atoms fg),
           bonds = map (\<lambda>(a, b, ty). (renumber d a, renumber d b, ty))
                     (filter (\<lambda>(a, b, ty). a \<noteq> d \<and> b \<noteq> d) (bonds fg)) \<rparr>"
    using fg' RemoveAtom_ok[OF d] by simp
  have ax: "atoms ?X = atoms base @ atoms fg"
    by (simp add: CombineMols_def)
  have bx: "bonds ?X = bonds base @ map (\<lambda>(i, j, ty). (?n + i, ?n + j, ty)) (bonds fg)
                        @ [(heavy, ?n + d, ty)]"
    by (simp add: CombineMols_def)
  have idx: "?n + d < length (atoms ?X)"
    using d by (simp add: ax)
  have a': "take (?n + d) (atoms ?X) @ drop (Suc (?n + d)) (atoms ?X)
            = atoms base @ atoms fg'"
    by (simp add: ax f)
  have last: "filter (\<lambda>(a, b, ty). a \<noteq> ?n + d \<and> b \<noteq> ?n + d) [(heavy, ?n + d, ty)] = []"
    by simp
  have b1: "map (\<lambda>(a, b, ty). (renumber (?n + d) a, renumber (?n + d) b, ty))
           (filter (\<lambda>(a, b, ty). a \<noteq> ?n + d \<and> b \<noteq> ?n + d) (bonds base)) = bonds base"
    by (rule base_bonds_survive[OF ends]) simp
  have fb: "bonds fg' = map (\<lambda>(a, b, ty). (renumber d a, renumber d b, ty))
                     (filter (\<lambda>(a, b, ty). a \<noteq> d \<and> b \<noteq> d) (bonds fg))"
    by (simp add: f)
  have b': "map (\<lambda>(a, b, ty). (renumber (?n + d) a, renumber (?n + d) b, ty))
              (filter (\<lambda>(a, b, ty). a \<noteq> ?n + d \<and> b \<noteq> ?n + d) (bonds ?X))
            = bonds base @ map (\<lambda>(i, j, ty). (?n + i, ?n + j, ty)) (bonds fg')"
    by (simp only: bx filter_append map_append last b1 fragment_bonds_shift fb list.map
        append_Nil2)
  have "RemoveAtom (?n + d) ?X
        = Inr \<lparr> atoms = atoms base @ atoms fg',
                bonds = bonds base @ map (\<lambda>(i, j, ty). (?n + i, ?n + j, ty)) (bonds fg') \<rparr>"
    by (simp only: RemoveAtom_ok[OF idx] a' b')
  then show ?thesis
    by (simp only: CombineMols_def)
qed

lemma attach_no_hydrogen:
  assumes "find_hydrogen (AddHs tk m) [0 ..< length (atoms (AddHs tk m))] = None"
  shows "attach_functional_group tk m fg_smiles = Inr None"
  using assms by (simp add: attach_functional_group_def Let_def split: option.splits)

lemma attach_outcome:
  assumes parse: "MolFromSmiles tk fg_smiles = Some fg"
    and wf: "wf_mol (AddHs tk m)"
    and H: "find_hydrogen (AddHs tk m) [0 ..< length (atoms (AddHs tk m))] = Some (heavy0, h)"
    and d: "attachment_index fg < length (atoms fg)"
  shows "\<exists>mol_no_H fg'.
           RemoveAtom h (AddHs tk m) = Inr mol_no_H
         \<and> RemoveAtom (attachment_index fg) fg = Inr fg'
         \<and> (if h < heavy0 then heavy0 - 1 else heavy0) < length (atoms mol_no_H)
         \<and> AddBond (if h < heavy0 then heavy0 - 1 else heavy0)
               (length (atoms mol_no_H) + attachment_index fg) SINGLE (CombineMols mol_no_H fg)
             = Inr ((CombineMols mol_no_H fg)
                  \<lparr>bonds := bonds (CombineMols mol_no_H fg)
                      @ [(if h < heavy0 then heavy0 - 1 else heavy0,
                          length (atoms mol_no_H) + attachment_index fg, SINGLE)]\<rparr>)
         \<and> RemoveAtom (length (atoms mol_no_H) + attachment_index fg)
               ((CombineMols mol_no_H fg)
                  \<lparr>bonds := bonds (CombineMols mol_no_H fg)
                      @ [(if h < heavy0 then heavy0 - 1 else heavy0,
                          length (atoms mol_no_H) + attachment_index fg, SINGLE)]\<rparr>)
             = Inr (CombineMols mol_no_H fg')
         \<and> attach_functional_group tk m fg_smiles = after_sanitize tk (CombineMols mol_no_H fg')"
proof -
  let ?mol_h = "AddHs tk m"
  let ?heavy = "if h < heavy0 then heavy0 - 1 else heavy0"
  from find_hydrogen_Some[OF H] have h: "h < length (atoms ?mol_h)"
    and nb: "heavy0 \<in> set (GetNeighbors ?mol_h h)" by simp_all
  from wf_neighbour[OF wf nb] have heavy0: "heavy0 < length (atoms ?mol_h)" "heavy0 \<noteq> h"
    by simp_all
  obtain mol_no_H where r1: "RemoveAtom h ?mol_h = Inr mol_no_H"
    using RemoveAtom_ok[OF h] by blast
  obtain fg' where r2: "RemoveAtom (attachment_index fg) fg = Inr fg'"
    using RemoveAtom_ok[OF d] by blast
  have len: "length (atoms mol_no_H) = length (atoms ?mol_h) - 1"
    using r1 h by (auto simp add: RemoveAtom_def)
  have heavy: "?heavy < length (atoms mol_no_H)"
    using heavy0 h by (auto simp add: len)
  have ends: "bond_ends_below (length (atoms mol_no_H)) mol_no_H"
    using removed_bond_ends[OF wf h r1]
    by (auto simp add: bond_ends_below_def list_all_iff)
  note ab = AddBond_across[OF ends heavy d, of SINGLE]
  note rm = bond_then_remove[OF ends d r2, of ?heavy SINGLE]
  have "attach_functional_group tk m fg_smiles = after_sanitize tk (CombineMols mol_no_H fg')"
    unfolding attach_functional_group_def after_sanitize_def
    using ab rm
    by (simp add: parse H r1 Let_def GetNumAtoms_def attachment_index_def del: One_nat_def)
  then show ?thesis using r1 r2 heavy ab rm by blast
qed

lemma after_sanitize_not_None: "after_sanitize tk final_mol \<noteq> Inr None"
  by (simp add: after_sanitize_def split: sum.splits)

lemma up8: "[0 ..< 8] = [0, 1, 2, 3, 4, 5, 6, 7 :: nat]"
  by code_simp

lemma up5: "[0 ..< 5] = [0, 1, 2, 3, 4 :: nat]"
  by code_simp

section \<open>The properties\<close>

text \<open>
  Claim C1. Attaching the methyl fragment \<open>[*:1]C\<close> to ethane: the function bonds the
  base carbon to the dummy atom and then removes the dummy atom, which takes both of its
  bonds with it. The molecule handed to sanitization has the eight atoms of an ethyl
  group and a carbon, and the fragment carbon (index 7) has no neighbour: the result is
  not the connected three-carbon chain of propane. A base molecule in which no hydrogen
  has a neighbour, after the hydrogens are made explicit, gives the failure value
  \<open>None\<close>.
\<close>

theorem attach_methyl_to_ethane_detached:
  "(MolFromSmiles tk ''[*:1]C'' = Some methyl_fragment
      \<and> AddHs tk ethane = ethane_with_hydrogens \<longrightarrow>
    attach_functional_group tk ethane ''[*:1]C''
      = after_sanitize tk
          \<lparr>atoms = [6, 6, 1, 1, 1, 1, 1, 6],
            bonds = [(0, 1, SINGLE), (0, 2, SINGLE), (0, 3, SINGLE),
                     (1, 4, SINGLE), (1, 5, SINGLE), (1, 6, SINGLE)]\<rparr>)
   \<and> GetNeighbors
         \<lparr>atoms = [6, 6, 1, 1, 1, 1, 1, 6],
           bonds = [(0, 1, SINGLE), (0, 2, SINGLE), (0, 3, SINGLE),
                    (1, 4, SINGLE), (1, 5, SINGLE), (1, 6, SINGLE)]\<rparr> 7 = []
   \<and> ((\<forall>i < length (atoms (AddHs tk m)).
          atoms (AddHs tk m) ! i = 1 \<longrightarrow> GetNeighbors (AddHs tk m) i = []) \<longrightarrow>
        attach_functional_group tk m fg_smiles = Inr None)"
proof (intro conjI impI)
  assume a: "MolFromSmiles tk ''[*:1]C'' = Some methyl_fragment
      \<and> AddHs tk ethane = ethane_with_hydrogens"
  have up: "[0 ..< 8] = [0, 1, 2, 3, 4, 5, 6, 7 :: nat]" by code_simp
  show "attach_functional_group tk ethane ''[*:1]C''
      = after_sanitize tk
          \<lparr>atoms = [6, 6, 1, 1, 1, 1, 1, 6],
            bonds = [(0, 1, SINGLE), (0, 2, SINGLE), (0, 3, SINGLE),
                     (1, 4, SINGLE), (1, 5, SINGLE), (1, 6, SINGLE)]\<rparr>"
    by (simp add: attach_functional_group_def after_sanitize_def a ethane_with_hydrogens_def
        methyl_fragment_def up GetNeighbors_def RemoveAtom_def renumber_def AddBond_def
        CombineMols_def GetNumAtoms_def Let_def)
next
  show "GetNeighbors
         \<lparr>atoms = [6, 6, 1, 1, 1, 1, 1, 6],
           bonds = [(0, 1, SINGLE), (0, 2, SINGLE), (0, 3, SINGLE),
                    (1, 4, SINGLE), (1, 5, SINGLE), (1, 6, SINGLE)]\<rparr> 7 = []"
    by (simp add: GetNeighbors_def)
next
  assume "\<forall>i < length (atoms (AddHs tk m)).
          atoms (AddHs tk m) ! i = 1 \<longrightarrow> GetNeighbors (AddHs tk m) i = []"
  then have "find_hydrogen (AddHs tk m) [0 ..< length (atoms (AddHs tk m))] = None"
    by (simp add: find_hydrogen_None)
  then show "attach_functional_group tk m fg_smiles = Inr None"
    by (rule attach_no_hydrogen)
qed

text \<open>
  The statement above at a concrete toolkit: ethane with the methyl fragment, and carbon
  tetrachloride as a base molecule without hydrogen.
\<close>

theorem attach_methyl_to_ethane_detached_witness:
  "MolFromSmiles example_toolkit ''[*:1]C'' = Some methyl_fragment
   \<and> AddHs example_toolkit ethane = ethane_with_hydrogens
   \<and> attach_functional_group example_toolkit ethane ''[*:1]C''
       = Inr (Some \<lparr>atoms = [6, 6, 1, 1, 1, 1, 1, 6],
                     bonds = [(0, 1, SINGLE), (0, 2, SINGLE), (0, 3, SINGLE),
                              (1, 4, SINGLE), (1, 5, SINGLE), (1, 6, SINGLE)]\<rparr>)
   \<and> AddHs example_toolkit carbon_tetrachloride = carbon_tetrachloride
   \<and> 1 \<notin> set (atoms carbon_tetrachloride)
   \<and> attach_functional_group example_toolkit carbon_tetrachloride ''[*:1]C'' = Inr None"
proof -
  have p: "MolFromSmiles example_toolkit ''[*:1]C'' = Some methyl_fragment"
    by (simp add: example_toolkit_def)
  have a: "AddHs example_toolkit ethane = ethane_with_hydrogens"
    by (simp add: example_toolkit_def)
  have c: "AddHs example_toolkit carbon_tetrachloride = carbon_tetrachloride"
    by (simp add: example_toolkit_def carbon_tetrachloride_def ethane_def)
  have n: "\<forall>i < length (atoms (AddHs example_toolkit carbon_tetrachloride)).
          atoms (AddHs example_toolkit carbon_tetrachloride) ! i = 1
          \<longrightarrow> GetNeighbors (AddHs example_toolkit carbon_tetrachloride) i = []"
    unfolding c by (simp add: carbon_tetrachloride_def nth_Cons split: nat.splits)
  have s: "after_sanitize example_toolkit x = Inr (Some x)" for x
    by (simp add: after_sanitize_def example_toolkit_def)
  have h: "1 \<notin> set (atoms carbon_tetrachloride)"
    by (simp add: carbon_tetrachloride_def)
  show ?thesis
    using p a n c h
      attach_methyl_to_ethane_detached [of example_toolkit carbon_tetrachloride "''[*:1]C''"]
    by (simp add: s)
qed

text \<open>
  Claim C2. For every parameter record the compliance check reports the molecule
  compliant exactly when at most one of the four rules fails, that is when at least three
  hold; a molecular weight of exactly 500 satisfies the weight rule and 500.01 fails it.
\<close>

theorem lipinski_compliance_iff:
  "reported_compliant (check_lipinski_compliance (Some p)) = (failed_rules p \<le> 1)
   \<and> reported_compliant (check_lipinski_compliance (Some p)) = (3 \<le> 4 - failed_rules p)
   \<and> weight_rule (check_lipinski_compliance (Some (p\<lparr>Molecular_Weight := 500\<rparr>)))
   \<and> \<not> weight_rule (check_lipinski_compliance (Some (p\<lparr>Molecular_Weight := 500.01\<rparr>)))"
  by (simp add: check_lipinski_compliance_def sum_rules_def failed_rules_def Let_def)

text \<open>
  Claim C3, as stated, at a pass in which Add Group fails (carbon tetrachloride has no
  hydrogen to replace) while the text field holds the new, valid text \<open>CC\<close>: the current
  molecule does not keep its prior value, and the only message shown is the success
  message of the text field, which has replaced the failure message in the single
  message slot of the session.
\<close>

theorem failed_add_group_overwritten_counterexample:
  "add_group_fails example_toolkit Methyl example_session
   \<and> current_molecule example_session = ''ClC(Cl)(Cl)Cl''
   \<and> functional_group_editor example_toolkit True Methyl (Some ''CC'') example_session
       = (example_session\<lparr>current_molecule := ''CC'', submitted := Some False\<rparr>,
          Some ''SMILES updated successfully!'')"
proof -
  have c: "AddHs example_toolkit carbon_tetrachloride = carbon_tetrachloride"
    by (simp add: example_toolkit_def carbon_tetrachloride_def ethane_def)
  have at: "attach_functional_group example_toolkit carbon_tetrachloride ''[*:1]C'' = Inr None"
    unfolding attach_functional_group_def c
    by (simp add: up5 carbon_tetrachloride_def example_toolkit_def)
  have p: "MolFromSmiles example_toolkit ''ClC(Cl)(Cl)Cl'' = Some carbon_tetrachloride"
    by (simp add: example_toolkit_def)
  have f: "add_group_fails example_toolkit Methyl example_session"
    by (simp add: add_group_fails_def example_session_def p at)
  have ag: "add_group example_toolkit Methyl example_session
            = example_session\<lparr>message := ''Invalid modification!''\<rparr>"
    by (simp add: add_group_def example_session_def p at)
  have q: "MolFromSmiles example_toolkit ''CC'' = Some ethane"
    by (simp add: example_toolkit_def)
  have r: "functional_group_editor example_toolkit True Methyl (Some ''CC'') example_session
       = (example_session\<lparr>current_molecule := ''CC'', submitted := Some False\<rparr>,
          Some ''SMILES updated successfully!'')"
    by (simp only: functional_group_editor_def if_True ag)
       (simp add: enter_smiles_def show_message_def example_session_def q Let_def)
  show ?thesis using f r by (simp add: example_session_def)
qed

text \<open>
  Claim C3, amended. A failed edit never itself changes the current molecule and leaves
  a message: so for a failed attempt to add a group (the current molecule does not parse,
  the attachment returns \<open>None\<close> or raises, or the SMILES output raises) and for typed
  text that does not parse. In a pass through the editor in which every edit that is
  attempted fails, the current molecule keeps its prior value and a message is shown.
  In a pass in which Add Group fails and the text field holds new text that parses, the
  typed text becomes the current molecule and the message shown is that of the text
  field.
\<close>

theorem failed_edit_keeps_molecule:
  "(add_group_fails tk g s \<longrightarrow>
      current_molecule (add_group tk g s) = current_molecule s
      \<and> message (add_group tk g s) \<noteq> [])
   \<and> (smiles_entry_fails tk typed s \<longrightarrow>
      current_molecule (enter_smiles tk typed s) = current_molecule s
      \<and> message (enter_smiles tk typed s) = ''Invalid SMILES!'')
   \<and> (clicked \<and> add_group_fails tk g s
          \<and> (smiles_entry_idle typed s \<or> smiles_entry_fails tk typed s)
        \<or> \<not> clicked \<and> smiles_entry_fails tk typed s \<longrightarrow>
      current_molecule (fst (functional_group_editor tk clicked g typed s)) = current_molecule s
      \<and> (\<exists>msg. snd (functional_group_editor tk clicked g typed s) = Some msg \<and> msg \<noteq> [])
      \<and> message (fst (functional_group_editor tk clicked g typed s)) = [])
   \<and> (clicked \<and> add_group_fails tk g s \<and> smiles_entry_succeeds tk typed s \<longrightarrow>
      typed = Some (current_molecule (fst (functional_group_editor tk clicked g typed s)))
      \<and> snd (functional_group_editor tk clicked g typed s) = Some ''SMILES updated successfully!'')"
proof (intro conjI)
  show a: "add_group_fails tk g s \<longrightarrow>
      current_molecule (add_group tk g s) = current_molecule s
      \<and> message (add_group tk g s) \<noteq> []"
    by (auto simp add: add_group_fails_def add_group_def split: option.splits sum.splits)
  show b: "smiles_entry_fails tk typed s \<longrightarrow>
      current_molecule (enter_smiles tk typed s) = current_molecule s
      \<and> message (enter_smiles tk typed s) = ''Invalid SMILES!''"
    by (auto simp add: smiles_entry_fails_def enter_smiles_def split: option.splits)
  show "clicked \<and> add_group_fails tk g s
          \<and> (smiles_entry_idle typed s \<or> smiles_entry_fails tk typed s)
        \<or> \<not> clicked \<and> smiles_entry_fails tk typed s \<longrightarrow>
      current_molecule (fst (functional_group_editor tk clicked g typed s)) = current_molecule s
      \<and> (\<exists>msg. snd (functional_group_editor tk clicked g typed s) = Some msg \<and> msg \<noteq> [])
      \<and> message (fst (functional_group_editor tk clicked g typed s)) = []"
    using a
    by (auto simp add: functional_group_editor_def show_message_def enter_smiles_def Let_def
        smiles_entry_idle_def smiles_entry_fails_def split: option.splits)
  show "clicked \<and> add_group_fails tk g s \<and> smiles_entry_succeeds tk typed s \<longrightarrow>
      typed = Some (current_molecule (fst (functional_group_editor tk clicked g typed s)))
      \<and> snd (functional_group_editor tk clicked g typed s) = Some ''SMILES updated successfully!''"
    using a
    by (auto simp add: functional_group_editor_def show_message_def enter_smiles_def Let_def
        smiles_entry_succeeds_def split: option.splits)
qed

text \<open>
  The statement above at a concrete session: adding methyl to carbon tetrachloride fails
  for want of a hydrogen, and the typed text \<open>C((\<close> does not parse.
\<close>

theorem failed_edit_keeps_molecule_witness:
  "add_group_fails example_toolkit Methyl example_session
   \<and> smiles_entry_fails example_toolkit (Some ''C(('') example_session
   \<and> smiles_entry_idle None example_session
   \<and> current_molecule (fst (functional_group_editor example_toolkit True Methyl None example_session))
       = ''ClC(Cl)(Cl)Cl''
   \<and> snd (functional_group_editor example_toolkit True Methyl None example_session)
       = Some ''Invalid modification!''
   \<and> current_molecule
        (fst (functional_group_editor example_toolkit False Methyl (Some ''C(('') example_session))
       = ''ClC(Cl)(Cl)Cl''
   \<and> snd (functional_group_editor example_toolkit False Methyl (Some ''C(('') example_session)
       = Some ''Invalid SMILES!''"
proof -
  have c: "AddHs example_toolkit carbon_tetrachloride = carbon_tetrachloride"
    by (simp add: example_toolkit_def carbon_tetrachloride_def ethane_def)
  have at: "attach_functional_group example_toolkit carbon_tetrachloride ''[*:1]C'' = Inr None"
    unfolding attach_functional_group_def c
    by (simp add: up5 carbon_tetrachloride_def example_toolkit_def)
  have p: "MolFromSmiles example_toolkit ''ClC(Cl)(Cl)Cl'' = Some carbon_tetrachloride"
    by (simp add: example_toolkit_def)
  have f: "add_group_fails example_toolkit Methyl example_session"
    by (simp add: add_group_fails_def example_session_def p at)
  have ag: "add_group example_toolkit Methyl example_session
            = example_session\<lparr>message := ''Invalid modification!''\<rparr>"
    by (simp add: add_group_def example_session_def p at)
  have e: "smiles_entry_fails example_toolkit (Some ''C(('') example_session"
    by (simp add: smiles_entry_fails_def example_session_def example_toolkit_def)
  have i: "smiles_entry_idle None example_session"
    by (simp add: smiles_entry_idle_def)
  have r1: "functional_group_editor example_toolkit True Methyl None example_session
            = (example_session, Some ''Invalid modification!'')"
    by (simp only: functional_group_editor_def if_True ag)
       (simp add: enter_smiles_def show_message_def example_session_def Let_def)
  have r2: "functional_group_editor example_toolkit False Methyl (Some ''C(('') example_session
            = (example_session, Some ''Invalid SMILES!'')"
    by (simp add: functional_group_editor_def enter_smiles_def show_message_def
        example_session_def example_toolkit_def Let_def)
  have cm: "current_molecule example_session = ''ClC(Cl)(Cl)Cl''"
    by (simp add: example_session_def)
  have c1: "current_molecule
              (fst (functional_group_editor example_toolkit True Methyl None example_session))
            = current_molecule example_session"
    using f i failed_edit_keeps_molecule [of example_toolkit Methyl example_session None True]
    by blast
  have c2: "current_molecule
              (fst (functional_group_editor example_toolkit False Methyl (Some ''C(('')
                      example_session))
            = current_molecule example_session"
    using e
      failed_edit_keeps_molecule [of example_toolkit Methyl example_session "Some ''C((''" False]
    by blast
  show ?thesis
    using f e i c1 c2 by (simp only: cm r1 r2 snd_conv simp_thms)
qed

text \<open>
  Claim C4, as stated, at the in-range input \<open>ka = ke = 0.5\<close>, dose 500 and volume 50:
  the call ends in a \<open>ZeroDivisionError\<close>, it does not return a non-finite array.
\<close>

theorem oral_equal_rates_counterexample:
  "one_compartment_oral [0, 1, 2] 500 50 0.5 0.5 1 = Inl ZeroDivisionError"
  by (simp add: one_compartment_oral_def py_div_def)

text \<open>
  Claim C4, amended. With equal absorption and elimination rate constants the
  denominator \<open>V * (ka - ke)\<close> of \<open>one_compartment_oral\<close> is zero, nothing guards the
  division, and the division of the two Python scalars raises \<open>ZeroDivisionError\<close> for
  every other argument.
\<close>

theorem oral_equal_rates_raise:
  "V * (k - k) = 0
   \<and> 50 * ((0.5::real) - 0.5) = 0
   \<and> one_compartment_oral t D V k k F = Inl ZeroDivisionError"
  by (simp add: one_compartment_oral_def py_div_def)





text \<open>
  Claim C7. For every pKa the ionized fraction of an acid at \<open>pH = pKa\<close> is
  \<open>1 / (1 + 10 powr (pKa - pH))\<close>, which is exactly 0.5.
\<close>

theorem ionization_half_at_pKa:
  "calculate_ionization pKa pKa True = 1 / (1 + 10 powr (pKa - pKa))
   \<and> calculate_ionization pKa pKa True = 0.5"
  by (simp add: calculate_ionization_def)




text \<open>
  Claim C9. When the fragment parses, has an atom at index 0 and no dummy atom, and the
  base molecule has a hydrogen to replace, the search for the dummy atom finds nothing and
  the function goes on with index 0: it bonds the heavy atom of the base molecule to the
  fragment's first atom, removes that atom, and returns what sanitization makes of the
  result. It never returns the failure value \<open>None\<close> for the missing attachment point.
\<close>

theorem missing_dummy_falls_back_to_index_0:
  assumes parse: "MolFromSmiles tk fg_smiles = Some fg"
    and nodummy: "0 \<notin> set (atoms fg)"
    and nonempty: "atoms fg \<noteq> []"
    and wf: "wf_mol (AddHs tk m)"
    and H: "find_hydrogen (AddHs tk m) [0 ..< length (atoms (AddHs tk m))] = Some (heavy0, h)"
  shows "\<exists>mol_no_H new_mol final_mol.
           find_dummy (atoms fg) 0 = None
         \<and> RemoveAtom h (AddHs tk m) = Inr mol_no_H
         \<and> AddBond (if h < heavy0 then heavy0 - 1 else heavy0) (GetNumAtoms mol_no_H + 0) SINGLE
               (CombineMols mol_no_H fg) = Inr new_mol
         \<and> (if h < heavy0 then heavy0 - 1 else heavy0, GetNumAtoms mol_no_H + 0, SINGLE)
               \<in> set (bonds new_mol)
         \<and> atoms new_mol ! (GetNumAtoms mol_no_H + 0) = atoms fg ! 0
         \<and> RemoveAtom (GetNumAtoms mol_no_H + 0) new_mol = Inr final_mol
         \<and> atoms final_mol = atoms mol_no_H @ tl (atoms fg)
         \<and> attach_functional_group tk m fg_smiles = after_sanitize tk final_mol
         \<and> attach_functional_group tk m fg_smiles \<noteq> Inr None"
proof -
  have none: "find_dummy (atoms fg) 0 = None"
    using nodummy by (simp add: find_dummy_None)
  then have idx: "attachment_index fg = 0"
    by (simp add: attachment_index_def)
  have d: "attachment_index fg < length (atoms fg)"
    using nonempty by (simp add: idx)
  let ?heavy = "if h < heavy0 then heavy0 - 1 else heavy0"
  from attach_outcome[OF parse wf H d] obtain mol_no_H fg' where
    r1: "RemoveAtom h (AddHs tk m) = Inr mol_no_H"
    and r2: "RemoveAtom 0 fg = Inr fg'"
    and ab: "AddBond ?heavy (length (atoms mol_no_H) + 0) SINGLE (CombineMols mol_no_H fg)
             = Inr ((CombineMols mol_no_H fg)
                  \<lparr>bonds := bonds (CombineMols mol_no_H fg)
                      @ [(?heavy, length (atoms mol_no_H) + 0, SINGLE)]\<rparr>)"
    and rm: "RemoveAtom (length (atoms mol_no_H) + 0)
               ((CombineMols mol_no_H fg)
                  \<lparr>bonds := bonds (CombineMols mol_no_H fg)
                      @ [(?heavy, length (atoms mol_no_H) + 0, SINGLE)]\<rparr>)
             = Inr (CombineMols mol_no_H fg')"
    and res: "attach_functional_group tk m fg_smiles = after_sanitize tk (CombineMols mol_no_H fg')"
    unfolding idx by blast
  let ?new = "(CombineMols mol_no_H fg)
                  \<lparr>bonds := bonds (CombineMols mol_no_H fg)
                      @ [(?heavy, length (atoms mol_no_H) + 0, SINGLE)]\<rparr>"
  have at0: "atoms ?new ! (length (atoms mol_no_H) + 0) = atoms fg ! 0"
    by (simp add: CombineMols_def nth_append)
  have "atoms fg' = tl (atoms fg)"
    using r2 nonempty by (auto simp add: RemoveAtom_def drop_Suc split: if_splits)
  then have fin: "atoms (CombineMols mol_no_H fg') = atoms mol_no_H @ tl (atoms fg)"
    by (simp add: CombineMols_def)
  have inb: "(?heavy, length (atoms mol_no_H) + 0, SINGLE) \<in> set (bonds ?new)"
    by simp
  have nn: "attach_functional_group tk m fg_smiles \<noteq> Inr None"
    by (simp only: res after_sanitize_not_None not_False_eq_True)
  show ?thesis
    unfolding GetNumAtoms_def
    using none r1 ab inb at0 rm fin res nn
    by blast
qed

text \<open>
  The statement above for ethane and the fragment \<open>C\<close>.
\<close>

theorem missing_dummy_falls_back_to_index_0_witness:
  "MolFromSmiles example_toolkit ''C'' = Some plain_carbon
   \<and> 0 \<notin> set (atoms plain_carbon) \<and> atoms plain_carbon \<noteq> []
   \<and> wf_mol (AddHs example_toolkit ethane)
   \<and> find_hydrogen (AddHs example_toolkit ethane)
        [0 ..< length (atoms (AddHs example_toolkit ethane))] = Some (0, 2)
   \<and> attach_functional_group example_toolkit ethane ''C'' \<noteq> Inr None"
proof -
  have p: "MolFromSmiles example_toolkit ''C'' = Some plain_carbon"
    by (simp add: example_toolkit_def)
  have z: "0 \<notin> set (atoms plain_carbon)" and ne: "atoms plain_carbon \<noteq> []"
    by (simp_all add: plain_carbon_def)
  have a: "AddHs example_toolkit ethane = ethane_with_hydrogens"
    by (simp add: example_toolkit_def)
  have wf: "wf_mol (AddHs example_toolkit ethane)"
    by (simp add: a wf_mol_def ethane_with_hydrogens_def)
  have H: "find_hydrogen (AddHs example_toolkit ethane)
        [0 ..< length (atoms (AddHs example_toolkit ethane))] = Some (0, 2)"
    by (simp add: a ethane_with_hydrogens_def up8 GetNeighbors_def)
  show ?thesis
    using p z ne wf H missing_dummy_falls_back_to_index_0 [OF p z ne wf H]
    by blast
qed

text \<open>
  Claim C10. The zero-order release is \<open>min (k * t) M0\<close> at every time point; for
  non-negative time, rate and drug load it lies between 0 and the drug load \<open>M0\<close>.
\<close>

theorem zero_order_release_capped:
  "zero_order_release t k M0 = map (\<lambda>ti. min (k * ti) M0) t
   \<and> length (zero_order_release t k M0) = length t
   \<and> (\<forall>i < length t. 0 \<le> t ! i \<and> 0 \<le> k \<and> 0 \<le> M0 \<longrightarrow>
          zero_order_release t k M0 ! i = min (k * (t ! i)) M0
        \<and> 0 \<le> zero_order_release t k M0 ! i
        \<and> zero_order_release t k M0 ! i \<le> M0)"
  by (simp add: zero_order_release_def)

text \<open>
  The statement above for a drug load of 50 released over 24 hours.
\<close>

theorem zero_order_release_capped_witness:
  "zero_order_release [0, 12, 24, 30] (50 / 24) 50 = [0, 25, 50, 50]"
  using zero_order_release_capped [of "[0, 12, 24, 30]" "50 / 24" 50]
  by (simp add: zero_order_release_def)

end
